theory Spec2Isabelle
  imports Main "HOL-Library.Word"
begin

section \<open>The profiler session of tensorflow/core/profiler/lib/profiler\_session.cc\<close>

text \<open>
  The file implements one class, \<open>ProfilerSession\<close>. Everything it calls lives in
  other files: the process-wide profiler lock, the collector plugins and their factory,
  the clock, the sleep primitive, the post-processing step and the options message.
  The embedding keeps the control flow of the source line by line and makes every
  effect explicit: each function takes the state of the process (\<open>world\<close>) and
  returns it updated. Calls to collaborators are recorded, in program order, in the
  world's \<open>trace\<close>; \<open>LOG\<close> statements are recorded in \<open>logs\<close>. The session's own
  \<open>mutex_\<close> serialises calls on one session; the embedding is sequential, so it has no
  counterpart here.
\<close>

subsection \<open>Status values\<close>

datatype error_code = Unimplemented | AlreadyActive | Internal | Unavailable

datatype status = OK | Error error_code string

subsection \<open>ProfileOptions\<close>

text \<open>
  The message has more fields than this file reads. The three it reads are the fields
  of the record; the others are the record's extension, so that a statement about a
  whole options value covers them too. \<open>version\<close> is tested for being nonzero only.
  \<open>start_timestamp_ns\<close> is subtracted from a 64-bit time into a 64-bit signed
  difference, so it is a 64-bit field. The declaration of the message is not part of the
  sources, and the test \<open>start_timestamp_ns() > 0\<close> means one thing for a field declared
  signed (the spec describes values \<open>\<le> 0\<close> as an immediate start) and another for a
  field declared unsigned: \<open>is_signed\<close> below is that part of the declaration.
\<close>

record ProfileOptions =
  version :: "32 word"
  include_dataset_ops :: bool
  start_timestamp_ns :: "64 word"

definition timestamp_positive :: "bool \<Rightarrow> 64 word \<Rightarrow> bool" where
  "timestamp_positive is_signed ts = (if is_signed then 0 < sint ts else 0 < uint ts)"

subsection \<open>The process state\<close>

datatype event =
    LockAcquire bool
  | LockReleaseIfActive bool
  | ClockRead
  | Sleep "64 word"
  | FactoryCreate
  | PluginStart nat
  | PluginStop nat
  | PluginCollectData nat
  | PostProcess "64 word option"

datatype log_msg =
    SessionInitializing
  | LateBy "64 word"
  | DelayingBy "64 word"
  | SessionStarted
  | StartError status
  | CollectingData
  | TearDown

text \<open>
  \<open>LockAcquire b\<close>: \<open>ProfilerLock::Acquire\<close> was called and \<open>b\<close> tells whether it
  succeeded. \<open>LockReleaseIfActive b\<close>: \<open>ReleaseIfActive\<close> was called on a token and
  \<open>b\<close> tells whether the token was active, that is, whether the call freed the process
  lock. Plugins are named by their position in the list the factory returned.
\<close>

record world =
  g_session_active :: bool
  clock_ns :: "64 word"
  trace :: "event list"
  logs :: "log_msg list"

definition emit :: "event \<Rightarrow> world \<Rightarrow> world" where
  "emit e w = w\<lparr>trace := trace w @ [e]\<rparr>"

definition LOG :: "log_msg \<Rightarrow> world \<Rightarrow> world" where
  "LOG m w = w\<lparr>logs := logs w @ [m]\<rparr>"

subsection \<open>Collaborators\<close>

text \<open>
  Modelled from the spec: the token of \<open>ProfilerLock\<close> (profiler\_lock.h is not part of
  the sources). The process lock is a single flag, global to the process
  (\<open>g_session_active\<close> in the world); a token is active when it holds that flag. A
  default-constructed token, as the session has before acquisition, is inactive.
\<close>

record ProfilerLock =
  m_active :: bool

text \<open>
  Modelled from the spec: \<open>ProfilerLock::Acquire\<close>, the spec's \<open>TryAcquire\<close>. It fails
  with \<open>AlreadyActive\<close> when another session holds the process lock, and otherwise takes
  the lock and returns an active token. The spec names the failure, not its message.
\<close>

definition Acquire :: "world \<Rightarrow> (status + ProfilerLock) \<times> world" where
  "Acquire w =
     (if g_session_active w
      then (Inl (Error AlreadyActive ''Another profiling session is active.''),
            emit (LockAcquire False) w)
      else (Inr \<lparr>m_active = True\<rparr>,
            emit (LockAcquire True) (w\<lparr>g_session_active := True\<rparr>)))"

text \<open>
  Modelled from the spec: \<open>ProfilerLock::ReleaseIfActive\<close>. On an active token it frees
  the process lock and deactivates the token; on an inactive token (released before, or
  never acquired) it does nothing and is not an error.
\<close>

definition ReleaseIfActive :: "ProfilerLock \<Rightarrow> world \<Rightarrow> ProfilerLock \<times> world" where
  "ReleaseIfActive l w =
     (if m_active l
      then (l\<lparr>m_active := False\<rparr>,
            emit (LockReleaseIfActive True) (w\<lparr>g_session_active := False\<rparr>))
      else (l, emit (LockReleaseIfActive False) w))"

text \<open>
  Modelled from the spec: \<open>GetCurrentTimeNanos\<close>, the spec's \<open>Clock.Now()\<close> (time\_utils.h
  is not part of the sources). It returns the current time, a signed 64-bit count of
  nanoseconds.
\<close>

definition GetCurrentTimeNanos :: "world \<Rightarrow> 64 word \<times> world" where
  "GetCurrentTimeNanos w = (clock_ns w, emit ClockRead w)"

text \<open>
  Modelled from the spec: \<open>SleepForNanos\<close>, the spec's \<open>Sleep(duration)\<close>, with its
  standard meaning: the caller is blocked for \<open>d\<close> nanoseconds, so the clock has
  advanced by \<open>d\<close> when it returns.
\<close>

definition SleepForNanos :: "64 word \<Rightarrow> world \<Rightarrow> world" where
  "SleepForNanos d w = emit (Sleep d) (w\<lparr>clock_ns := clock_ns w + d\<rparr>)"

text \<open>
  The remaining collaborators are parameters of the embedding: the value of
  \<open>ProfilerSession::DefaultOptions()\<close>, the value of a default-constructed options
  message, whether \<open>start_timestamp_ns\<close> is declared signed, the factory
  \<open>CreateProfilers\<close>, the three operations of a plugin (each returns a status and the
  plugin's next state; \<open>CollectData\<close> also returns the output container it wrote into),
  and \<open>PostProcessSingleHostXSpace\<close>. The second argument of the latter is the member
  \<open>start_time_ns_\<close>, which has no value before the constructor assigns it: \<open>None\<close>
  stands for that.
\<close>

record ('z, 'p, 'x) collaborators =
  DefaultOptions :: "'z ProfileOptions_scheme"
  EmptyOptions :: "'z ProfileOptions_scheme"
  start_timestamp_signed :: bool
  CreateProfilers :: "'z ProfileOptions_scheme \<Rightarrow> 'p list"
  plugin_Start :: "'p \<Rightarrow> status \<times> 'p"
  plugin_Stop :: "'p \<Rightarrow> status \<times> 'p"
  plugin_CollectData :: "'p \<Rightarrow> 'x \<Rightarrow> status \<times> 'p \<times> 'x"
  PostProcessSingleHostXSpace :: "'x \<Rightarrow> 64 word option \<Rightarrow> 'x"

subsection \<open>The session\<close>

text \<open>
  The data members of the class. A name cannot end in an underscore here, so the member
  \<open>status_\<close> of the source is \<open>m_status\<close>, and so on for the others.
\<close>

record ('z, 'p) session =
  m_status :: status
  m_options :: "'z ProfileOptions_scheme"
  m_profiler_lock :: ProfilerLock
  m_profilers :: "'p list"
  m_start_time_ns :: "64 word option"

text \<open>\<open>GetOptions\<close>, lines 42 to 47.\<close>

definition GetOptions ::
  "('z, 'p, 'x) collaborators \<Rightarrow> 'z ProfileOptions_scheme \<Rightarrow> 'z ProfileOptions_scheme" where
  "GetOptions env opts =
     (if version opts \<noteq> 0 then opts
      else (DefaultOptions env)\<lparr>include_dataset_ops := include_dataset_ops opts\<rparr>)"

text \<open>
  The three loops over \<open>m_profilers\<close>. The number is the position of the head of the
  list in \<open>m_profilers\<close>. A failed \<open>Start\<close> is logged; the status of \<open>Stop\<close> and of
  \<open>CollectData\<close> is dropped by \<open>IgnoreError\<close>.
\<close>

fun start_all ::
  "('p \<Rightarrow> status \<times> 'p) \<Rightarrow> nat \<Rightarrow> 'p list \<Rightarrow> world \<Rightarrow> 'p list \<times> world" where
  "start_all st i [] w = ([], w)"
| "start_all st i (p # ps) w =
     (let (start_status, p') = st p;
          w1 = emit (PluginStart i) w;
          w2 = (if start_status \<noteq> OK then LOG (StartError start_status) w1 else w1);
          (ps', w3) = start_all st (Suc i) ps w2
      in (p' # ps', w3))"

fun stop_all ::
  "('p \<Rightarrow> status \<times> 'p) \<Rightarrow> nat \<Rightarrow> 'p list \<Rightarrow> world \<Rightarrow> 'p list \<times> world" where
  "stop_all sp i [] w = ([], w)"
| "stop_all sp i (p # ps) w =
     (let (ignored, p') = sp p;
          w1 = emit (PluginStop i) w;
          (ps', w2) = stop_all sp (Suc i) ps w1
      in (p' # ps', w2))"

fun collect_all ::
  "('p \<Rightarrow> 'x \<Rightarrow> status \<times> 'p \<times> 'x) \<Rightarrow> nat \<Rightarrow> 'p list \<Rightarrow> 'x \<Rightarrow> world
     \<Rightarrow> 'p list \<times> 'x \<times> world" where
  "collect_all cd i [] space w = ([], space, w)"
| "collect_all cd i (p # ps) space w =
     (let (ignored, p', space1) = cd p space;
          w1 = emit (PluginCollectData i) w;
          (ps', space2, w2) = collect_all cd (Suc i) ps space1 w1
      in (p' # ps', space2, w2))"

text \<open>The scheduled start, lines 103 to 114 of the constructor.\<close>

definition sleep_until_start :: "bool \<Rightarrow> 64 word \<Rightarrow> world \<Rightarrow> world" where
  "sleep_until_start is_signed ts w =
     (if timestamp_positive is_signed ts then
        (let (now, w1) = GetCurrentTimeNanos w;
             sleep_duration_ns = ts - now
         in if sint sleep_duration_ns < 0
            then LOG (LateBy (- sleep_duration_ns)) w1
            else SleepForNanos sleep_duration_ns (LOG (DelayingBy sleep_duration_ns) w1))
      else w)"

text \<open>
  The constructor, lines 88 to 131. \<open>mobile\<close> is \<open>IS_MOBILE_PLATFORM\<close>. The two
  \<open>DCHECK\<close>s are assertions of debug builds and have no effect.
\<close>

definition ProfilerSession_ctor ::
  "bool \<Rightarrow> ('z, 'p, 'x) collaborators \<Rightarrow> 'z ProfileOptions_scheme \<Rightarrow> world
     \<Rightarrow> ('z, 'p) session \<times> world" where
  "ProfilerSession_ctor mobile env options w =
     (if mobile then
        (\<lparr>m_status = Error Unimplemented ''Profiler is unimplemented for mobile platforms.'',
          m_options = EmptyOptions env,
          m_profiler_lock = \<lparr>m_active = False\<rparr>,
          m_profilers = [],
          m_start_time_ns = None\<rparr>, w)
      else
        (let s0 = \<lparr>m_status = OK,
                   m_options = GetOptions env options,
                   m_profiler_lock = \<lparr>m_active = False\<rparr>,
                   m_profilers = [],
                   m_start_time_ns = None\<rparr>
         in case Acquire w of
              (Inl failure, w1) \<Rightarrow> (s0\<lparr>m_status := failure\<rparr>, w1)
            | (Inr profiler_lock, w1) \<Rightarrow>
                (let w2 = LOG SessionInitializing w1;
                     w3 = sleep_until_start (start_timestamp_signed env)
                            (start_timestamp_ns (m_options s0)) w2;
                     w4 = LOG SessionStarted w3;
                     (now, w5) = GetCurrentTimeNanos w4;
                     w6 = emit FactoryCreate w5;
                     (ps, w7) = start_all (plugin_Start env) 0
                                  (CreateProfilers env (m_options s0)) w6
                 in (s0\<lparr>m_profiler_lock := profiler_lock,
                        m_profilers := ps,
                        m_start_time_ns := Some now\<rparr>, w7))))"

text \<open>
  \<open>Create\<close>, lines 51 to 54: \<open>new\<close> followed by \<open>WrapUnique\<close>. The handle is an
  option; \<open>None\<close> is the null pointer.
\<close>

definition Create ::
  "bool \<Rightarrow> ('z, 'p, 'x) collaborators \<Rightarrow> 'z ProfileOptions_scheme \<Rightarrow> world
     \<Rightarrow> ('z, 'p) session option \<times> world" where
  "Create mobile env options w =
     (let (s, w') = ProfilerSession_ctor mobile env options w in (Some s, w'))"

text \<open>\<open>Status\<close>, lines 56 to 59.\<close>

definition Status :: "('z, 'p) session \<Rightarrow> status" where
  "Status s = m_status s"

text \<open>
  \<open>CollectDataInternal\<close>, lines 61 to 78. The result is the returned status, the
  session, the output container and the world.
\<close>

definition CollectDataInternal ::
  "bool \<Rightarrow> ('z, 'p, 'x) collaborators \<Rightarrow> ('z, 'p) session \<Rightarrow> 'x \<Rightarrow> world
     \<Rightarrow> status \<times> ('z, 'p) session \<times> 'x \<times> world" where
  "CollectDataInternal mobile env s space w =
     (if m_status s \<noteq> OK then (m_status s, s, space, w)
      else if mobile then (OK, s, space, w)
      else
        (let w1 = LOG CollectingData w;
             (ps1, w2) = stop_all (plugin_Stop env) 0 (m_profilers s) w1;
             (ps2, space', w3) = collect_all (plugin_CollectData env) 0 ps1 space w2;
             (l, w4) = ReleaseIfActive (m_profiler_lock s) w3
         in (OK, s\<lparr>m_profilers := ps2, m_profiler_lock := l\<rparr>, space', w4)))"

text \<open>\<open>CollectData\<close>, lines 80 to 86.\<close>

definition CollectData ::
  "bool \<Rightarrow> ('z, 'p, 'x) collaborators \<Rightarrow> ('z, 'p) session \<Rightarrow> 'x \<Rightarrow> world
     \<Rightarrow> status \<times> ('z, 'p) session \<times> 'x \<times> world" where
  "CollectData mobile env s space w =
     (if mobile then (OK, s, space, w)
      else
        (case CollectDataInternal mobile env s space w of
           (st, s', space', w') \<Rightarrow>
             if st \<noteq> OK then (st, s', space', w')
             else (OK, s',
                   PostProcessSingleHostXSpace env space' (m_start_time_ns s'),
                   emit (PostProcess (m_start_time_ns s')) w')))"

text \<open>The destructor, lines 133 to 143.\<close>

definition ProfilerSession_dtor ::
  "bool \<Rightarrow> ('z, 'p, 'x) collaborators \<Rightarrow> ('z, 'p) session \<Rightarrow> world \<Rightarrow> world" where
  "ProfilerSession_dtor mobile env s w =
     (if mobile then w
      else
        (let w1 = LOG TearDown w;
             (ps, w2) = stop_all (plugin_Stop env) 0 (m_profilers s) w1;
             (l, w3) = ReleaseIfActive (m_profiler_lock s) w2
         in w3))"

text \<open>What a run added to the trace: the events of \<open>w'\<close> after those of \<open>w\<close>.\<close>

definition new_events :: "world \<Rightarrow> world \<Rightarrow> event list" where
  "new_events w w' = drop (length (trace w)) (trace w')"

subsection \<open>A concrete configuration\<close>

text \<open>
  The definitions run. The configuration below has two plugins of which the second fails
  every operation, an output container that lists the names of the plugins that wrote
  into it, and a post-processing step that marks the container. \<open>idle_world\<close> is a
  process in which no session is active at time 1000; in \<open>busy_world\<close> another session
  holds the process lock.
\<close>

definition example_env :: "(unit, string \<times> bool, string list) collaborators" where
  "example_env =
     \<lparr>DefaultOptions = \<lparr>version = 1, include_dataset_ops = True, start_timestamp_ns = 0\<rparr>,
      EmptyOptions = \<lparr>version = 0, include_dataset_ops = False, start_timestamp_ns = 0\<rparr>,
      start_timestamp_signed = True,
      CreateProfilers = (\<lambda>opts. [(''host'', False), (''device'', True)]),
      plugin_Start = (\<lambda>p. (if snd p then Error Internal ''start failed'' else OK, p)),
      plugin_Stop = (\<lambda>p. (if snd p then Error Internal ''stop failed'' else OK, p)),
      plugin_CollectData =
        (\<lambda>p space. if snd p then (Error Unavailable ''no data'', p, space)
                    else (OK, p, space @ [fst p])),
      PostProcessSingleHostXSpace = (\<lambda>space t. ''processed'' # space)\<rparr>"

definition idle_world :: world where
  "idle_world = \<lparr>g_session_active = False, clock_ns = 1000, trace = [], logs = []\<rparr>"

definition busy_world :: world where
  "busy_world = \<lparr>g_session_active = True, clock_ns = 1000, trace = [], logs = []\<rparr>"

definition old_format_options :: ProfileOptions where
  "old_format_options = \<lparr>version = 0, include_dataset_ops = False, start_timestamp_ns = 5000\<rparr>"

definition new_format_options :: ProfileOptions where
  "new_format_options = \<lparr>version = 2, include_dataset_ops = True, start_timestamp_ns = 5000\<rparr>"

definition late_options :: ProfileOptions where
  "late_options = \<lparr>version = 2, include_dataset_ops = True, start_timestamp_ns = 400\<rparr>"

text \<open>
  A session created in the idle process, the result of collecting its data, and the
  result of collecting a second time.
\<close>

definition example_started :: "(unit, string \<times> bool) session \<times> world" where
  "example_started = ProfilerSession_ctor False example_env old_format_options idle_world"

definition example_collected ::
  "status \<times> (unit, string \<times> bool) session \<times> string list \<times> world" where
  "example_collected =
     CollectData False example_env (fst example_started) [] (snd example_started)"

definition example_collected_again ::
  "status \<times> (unit, string \<times> bool) session \<times> string list \<times> world" where
  "example_collected_again =
     CollectData False example_env (fst (snd example_collected))
       (fst (snd (snd example_collected))) (snd (snd (snd example_collected)))"

text \<open>
  The same configuration with \<open>start_timestamp_ns\<close> declared unsigned, and options
  whose timestamp is \<open>2 ^ 63 + 1000\<close>.
\<close>

definition example_env_unsigned :: "(unit, string \<times> bool, string list) collaborators" where
  "example_env_unsigned = example_env\<lparr>start_timestamp_signed := False\<rparr>"

definition far_future_options :: ProfileOptions where
  "far_future_options =
     \<lparr>version = 2, include_dataset_ops = True, start_timestamp_ns = 9223372036854776808\<rparr>"

section \<open>Facts about the building blocks\<close>

lemma new_events_append: "trace w' = trace w @ es \<Longrightarrow> new_events w w' = es"
  by (simp add: new_events_def)

text \<open>Each loop visits every plugin once, in list order, and changes nothing else.\<close>

lemma stop_all_states: "fst (stop_all sp i ps w) = map (\<lambda>p. snd (sp p)) ps"
  by (induction ps arbitrary: i w) (simp_all add: Let_def split_beta)

lemma stop_all_world:
  "snd (stop_all sp i ps w) = w\<lparr>trace := trace w @ map PluginStop [i..<i + length ps]\<rparr>"
proof (induction ps arbitrary: i w)
  case Nil
  show ?case by simp
next
  case (Cons p ps)
  have "[i..<i + length (p # ps)] = i # [Suc i..<Suc i + length ps]"
    by (simp add: upt_rec)
  with Cons [of "Suc i" "emit (PluginStop i) w"] show ?case
    by (simp add: Let_def emit_def split_beta)
qed

lemma collect_all_world:
  "snd (snd (collect_all cd i ps x w)) =
     w\<lparr>trace := trace w @ map PluginCollectData [i..<i + length ps]\<rparr>"
proof (induction ps arbitrary: i x w)
  case Nil
  show ?case by simp
next
  case (Cons p ps)
  have "[i..<i + length (p # ps)] = i # [Suc i..<Suc i + length ps]"
    by (simp add: upt_rec)
  with Cons [of "Suc i" _ "emit (PluginCollectData i) w"] show ?case
    by (simp add: Let_def emit_def split_beta)
qed

lemma collect_all_length: "length (fst (collect_all cd i ps x w)) = length ps"
  by (induction ps arbitrary: i x w) (simp_all add: Let_def split_beta)

lemma collect_all_space:
  "fst (snd (collect_all cd i ps x w)) = foldl (\<lambda>y p. snd (snd (cd p y))) x ps"
  by (induction ps arbitrary: i x w) (simp_all add: Let_def split_beta)

lemma start_all_states: "fst (start_all st i ps w) = map (\<lambda>p. snd (st p)) ps"
  by (induction ps arbitrary: i w) (simp_all add: Let_def split_beta)

lemma start_all_world:
  "snd (start_all st i ps w) =
     w\<lparr>trace := trace w @ map PluginStart [i..<i + length ps],
       logs := logs w @ map StartError (filter (\<lambda>r. r \<noteq> OK) (map (\<lambda>p. fst (st p)) ps))\<rparr>"
proof (induction ps arbitrary: i w)
  case Nil
  show ?case by simp
next
  case (Cons p ps)
  have "[i..<i + length (p # ps)] = i # [Suc i..<Suc i + length ps]"
    by (simp add: upt_rec)
  with Cons show ?case
    by (simp add: Let_def emit_def LOG_def split_beta)
qed

lemma sleep_until_start_world:
  "sleep_until_start is_signed ts w =
     (if timestamp_positive is_signed ts then
        (if sint (ts - clock_ns w) < 0
         then w\<lparr>trace := trace w @ [ClockRead],
                 logs := logs w @ [LateBy (- (ts - clock_ns w))]\<rparr>
         else w\<lparr>clock_ns := ts,
                 trace := trace w @ [ClockRead, Sleep (ts - clock_ns w)],
                 logs := logs w @ [DelayingBy (ts - clock_ns w)]\<rparr>)
      else w)"
  by (simp add: sleep_until_start_def GetCurrentTimeNanos_def SleepForNanos_def
      emit_def LOG_def Let_def)

lemma sleep_until_start_flag:
  "g_session_active (sleep_until_start is_signed ts w) = g_session_active w"
  by (simp add: sleep_until_start_world)

lemma ReleaseIfActive_world:
  "snd (ReleaseIfActive l w) =
     w\<lparr>g_session_active := g_session_active w \<and> \<not> m_active l,
       trace := trace w @ [LockReleaseIfActive (m_active l)]\<rparr>"
  by (simp add: ReleaseIfActive_def emit_def)

lemma ReleaseIfActive_token: "m_active (fst (ReleaseIfActive l w)) = False"
  by (simp add: ReleaseIfActive_def)

text \<open>
  \<open>CollectData\<close> on a supported platform, for a session whose status is \<open>OK\<close>: the
  returned status, the session, the output container and the world, written out.
\<close>

lemma CollectData_supported_ok:
  assumes "m_status s = OK"
  shows "case CollectData False env s space w of (st, s', space', w') \<Rightarrow>
     st = OK \<and> m_status s' = OK \<and> m_options s' = m_options s \<and>
     m_start_time_ns s' = m_start_time_ns s \<and>
     \<not> m_active (m_profiler_lock s') \<and>
     length (m_profilers s') = length (m_profilers s) \<and>
     space' = PostProcessSingleHostXSpace env
        (foldl (\<lambda>y p. snd (snd (plugin_CollectData env p y))) space
           (map (\<lambda>p. snd (plugin_Stop env p)) (m_profilers s)))
        (m_start_time_ns s) \<and>
     w' = w\<lparr>g_session_active := g_session_active w \<and> \<not> m_active (m_profiler_lock s),
            trace := trace w @ map PluginStop [0..<length (m_profilers s)]
               @ map PluginCollectData [0..<length (m_profilers s)]
               @ [LockReleaseIfActive (m_active (m_profiler_lock s)),
                  PostProcess (m_start_time_ns s)],
            logs := logs w @ [CollectingData]\<rparr>"
  using assms
  by (simp add: CollectData_def CollectDataInternal_def Let_def split_beta
      stop_all_states stop_all_world collect_all_world collect_all_length collect_all_space
      ReleaseIfActive_world ReleaseIfActive_token emit_def LOG_def)

text \<open>The constructor on a supported platform when the process lock is free.\<close>

lemma ctor_supported_acquired:
  assumes "\<not> g_session_active w"
  shows "case ProfilerSession_ctor False env options w of (s, w') \<Rightarrow>
     m_status s = OK \<and> m_options s = GetOptions env options \<and>
     m_active (m_profiler_lock s) \<and>
     m_profilers s = map (\<lambda>p. snd (plugin_Start env p))
                       (CreateProfilers env (GetOptions env options)) \<and>
     m_start_time_ns s = Some (clock_ns w') \<and>
     g_session_active w' \<and>
     (\<exists>w3. w3 = sleep_until_start (start_timestamp_signed env)
                  (start_timestamp_ns (GetOptions env options))
                  (w\<lparr>g_session_active := True, trace := trace w @ [LockAcquire True],
                     logs := logs w @ [SessionInitializing]\<rparr>) \<and>
        clock_ns w' = clock_ns w3 \<and>
        trace w' = trace w3 @ [ClockRead, FactoryCreate]
           @ map PluginStart [0..<length (CreateProfilers env (GetOptions env options))] \<and>
        logs w' = logs w3 @ [SessionStarted]
           @ map StartError (filter (\<lambda>r. r \<noteq> OK)
               (map (\<lambda>p. fst (plugin_Start env p))
                  (CreateProfilers env (GetOptions env options)))))"
  using assms
  by (simp add: ProfilerSession_ctor_def Acquire_def GetCurrentTimeNanos_def Let_def split_beta
      start_all_states start_all_world sleep_until_start_flag emit_def LOG_def)

text \<open>The same, with the scheduled start written out.\<close>

lemma ctor_acquired_explicit:
  assumes "\<not> g_session_active w"
  shows "case ProfilerSession_ctor False env options w of (s, w') \<Rightarrow>
     m_status s = OK \<and> m_options s = GetOptions env options \<and>
     m_active (m_profiler_lock s) \<and>
     m_profilers s = map (\<lambda>p. snd (plugin_Start env p))
                       (CreateProfilers env (GetOptions env options)) \<and>
     m_start_time_ns s = Some (clock_ns w') \<and>
     g_session_active w' \<and>
     clock_ns w' =
       (if timestamp_positive (start_timestamp_signed env)
                (start_timestamp_ns (GetOptions env options)) \<and>
           \<not> sint (start_timestamp_ns (GetOptions env options) - clock_ns w) < 0
        then start_timestamp_ns (GetOptions env options) else clock_ns w) \<and>
     trace w' = trace w @ [LockAcquire True]
        @ (if timestamp_positive (start_timestamp_signed env)
                (start_timestamp_ns (GetOptions env options))
           then ClockRead #
             (if sint (start_timestamp_ns (GetOptions env options) - clock_ns w) < 0 then []
              else [Sleep (start_timestamp_ns (GetOptions env options) - clock_ns w)])
           else [])
        @ [ClockRead, FactoryCreate]
        @ map PluginStart [0..<length (CreateProfilers env (GetOptions env options))] \<and>
     logs w' = logs w @ [SessionInitializing]
        @ (if timestamp_positive (start_timestamp_signed env)
                (start_timestamp_ns (GetOptions env options))
           then (if sint (start_timestamp_ns (GetOptions env options) - clock_ns w) < 0
                 then [LateBy (- (start_timestamp_ns (GetOptions env options) - clock_ns w))]
                 else [DelayingBy (start_timestamp_ns (GetOptions env options) - clock_ns w)])
           else [])
        @ [SessionStarted]
        @ map StartError (filter (\<lambda>r. r \<noteq> OK)
               (map (\<lambda>p. fst (plugin_Start env p))
                  (CreateProfilers env (GetOptions env options))))"
  using ctor_supported_acquired [OF assms, of env options]
  by (simp add: split_beta sleep_until_start_world)

text \<open>The destructor on a supported platform.\<close>

lemma dtor_supported_world:
  "ProfilerSession_dtor False env s w =
     w\<lparr>g_session_active := g_session_active w \<and> \<not> m_active (m_profiler_lock s),
       trace := trace w @ map PluginStop [0..<length (m_profilers s)]
          @ [LockReleaseIfActive (m_active (m_profiler_lock s))],
       logs := logs w @ [TearDown]\<rparr>"
  by (simp add: ProfilerSession_dtor_def Let_def split_beta stop_all_world
      ReleaseIfActive_world LOG_def)

text \<open>
  The 64-bit difference the constructor computes is the true difference of the timestamp
  (read as declared) and the clock whenever that fits in 64 signed bits.
\<close>

lemma timestamp_positive_unset:
  "ts = 0 \<or> (is_signed \<and> sint ts < 0) \<Longrightarrow> \<not> timestamp_positive is_signed ts"
  by (auto simp: timestamp_positive_def)

lemma sint_diff_in_range:
  fixes ts now :: "64 word"
  assumes "- (2 ^ 63) \<le> (if sg then sint ts else uint ts) - sint now"
    and "(if sg then sint ts else uint ts) - sint now < 2 ^ 63"
  shows "sint (ts - now) = (if sg then sint ts else uint ts) - sint now"
proof -
  have "ts - now = word_of_int ((if sg then sint ts else uint ts) - sint now)"
    by simp
  then have "sint (ts - now) =
      signed_take_bit 63 ((if sg then sint ts else uint ts) - sint now)"
    by (simp only: sint_sbintrunc') simp
  with assms show ?thesis
    by (simp only: signed_take_bit_int_eq_self)
qed


text \<open>The concrete session, evaluated.\<close>

lemma example_started_eval:
  "example_started =
     (\<lparr>m_status = OK,
       m_options = \<lparr>version = 1, include_dataset_ops = False, start_timestamp_ns = 0\<rparr>,
       m_profiler_lock = \<lparr>m_active = True\<rparr>,
       m_profilers = [(''host'', False), (''device'', True)],
       m_start_time_ns = Some 1000\<rparr>,
      \<lparr>g_session_active = True, clock_ns = 1000,
        trace = [LockAcquire True, ClockRead, FactoryCreate, PluginStart 0, PluginStart 1],
        logs = [SessionInitializing, SessionStarted,
                StartError (Error Internal ''start failed'')]\<rparr>)"
  by (simp add: example_started_def ProfilerSession_ctor_def Acquire_def GetOptions_def
      old_format_options_def example_env_def idle_world_def sleep_until_start_def
      timestamp_positive_def
      GetCurrentTimeNanos_def emit_def LOG_def Let_def)

lemma example_collected_eval:
  "example_collected =
     (OK,
      \<lparr>m_status = OK,
        m_options = \<lparr>version = 1, include_dataset_ops = False, start_timestamp_ns = 0\<rparr>,
        m_profiler_lock = \<lparr>m_active = False\<rparr>,
        m_profilers = [(''host'', False), (''device'', True)],
        m_start_time_ns = Some 1000\<rparr>,
      [''processed'', ''host''],
      \<lparr>g_session_active = False, clock_ns = 1000,
        trace = [LockAcquire True, ClockRead, FactoryCreate, PluginStart 0, PluginStart 1,
                 PluginStop 0, PluginStop 1, PluginCollectData 0, PluginCollectData 1,
                 LockReleaseIfActive True, PostProcess (Some 1000)],
        logs = [SessionInitializing, SessionStarted,
                StartError (Error Internal ''start failed''), CollectingData]\<rparr>)"
  by (simp add: example_collected_def example_started_eval CollectData_def
      CollectDataInternal_def ReleaseIfActive_def example_env_def emit_def LOG_def Let_def)

lemma example_collected_again_eval:
  "example_collected_again =
     (OK,
      \<lparr>m_status = OK,
        m_options = \<lparr>version = 1, include_dataset_ops = False, start_timestamp_ns = 0\<rparr>,
        m_profiler_lock = \<lparr>m_active = False\<rparr>,
        m_profilers = [(''host'', False), (''device'', True)],
        m_start_time_ns = Some 1000\<rparr>,
      [''processed'', ''processed'', ''host'', ''host''],
      \<lparr>g_session_active = False, clock_ns = 1000,
        trace = [LockAcquire True, ClockRead, FactoryCreate, PluginStart 0, PluginStart 1,
                 PluginStop 0, PluginStop 1, PluginCollectData 0, PluginCollectData 1,
                 LockReleaseIfActive True, PostProcess (Some 1000),
                 PluginStop 0, PluginStop 1, PluginCollectData 0, PluginCollectData 1,
                 LockReleaseIfActive False, PostProcess (Some 1000)],
        logs = [SessionInitializing, SessionStarted,
                StartError (Error Internal ''start failed''), CollectingData,
                CollectingData]\<rparr>)"
  by (simp add: example_collected_again_def example_collected_eval CollectData_def
      CollectDataInternal_def ReleaseIfActive_def example_env_def emit_def LOG_def Let_def)

section \<open>The options merge rule\<close>

text \<open>
  C6. If the caller's \<open>version\<close> is nonzero the merged options are the caller's value
  unchanged; if it is zero they are \<open>DefaultOptions\<close> with \<open>include_dataset_ops\<close>
  alone overridden by the caller's value. On a supported platform these merged options
  are the ones the session stores, whether or not the lock is acquired.
\<close>

theorem GetOptions_merge:
  "(version opts \<noteq> 0 \<longrightarrow> GetOptions env opts = opts) \<and>
   (version opts = 0 \<longrightarrow>
      GetOptions env opts =
        (DefaultOptions env)\<lparr>include_dataset_ops := include_dataset_ops opts\<rparr>) \<and>
   m_options (fst (ProfilerSession_ctor False env opts w)) = GetOptions env opts"
  by (simp add: GetOptions_def ProfilerSession_ctor_def Let_def split: prod.splits sum.splits)

theorem GetOptions_merge_witness:
  "version old_format_options = 0 \<and>
   GetOptions example_env old_format_options =
     \<lparr>version = 1, include_dataset_ops = False, start_timestamp_ns = 0\<rparr> \<and>
   version new_format_options \<noteq> 0 \<and>
   GetOptions example_env new_format_options = new_format_options"
  using GetOptions_merge [of old_format_options example_env idle_world]
    GetOptions_merge [of new_format_options example_env idle_world]
  by (simp add: old_format_options_def new_format_options_def example_env_def)

text \<open>
  C10. When the caller's \<open>version\<close> is zero, every field of the merged options other
  than \<open>include_dataset_ops\<close> is the default's; in particular the merged
  \<open>start_timestamp_ns\<close> is the default's, and the constructor does the same whatever
  timestamp the caller wrote. So the request cannot schedule a delay: with a default that
  carries no timestamp, construction never sleeps.
\<close>

theorem version_zero_discards_timestamp:
  assumes "version opts = 0"
  shows "GetOptions env opts =
           (DefaultOptions env)\<lparr>include_dataset_ops := include_dataset_ops opts\<rparr> \<and>
         start_timestamp_ns (GetOptions env opts) = start_timestamp_ns (DefaultOptions env) \<and>
         ProfilerSession_ctor mobile env (opts\<lparr>start_timestamp_ns := t\<rparr>) w =
           ProfilerSession_ctor mobile env opts w \<and>
         (start_timestamp_ns (DefaultOptions env) = 0 \<longrightarrow>
            (\<forall>d. Sleep d \<notin> set (new_events w (snd (ProfilerSession_ctor False env opts w)))))"
proof -
  have merged: "GetOptions env opts =
      (DefaultOptions env)\<lparr>include_dataset_ops := include_dataset_ops opts\<rparr>"
    using assms by (simp add: GetOptions_def)
  have same: "GetOptions env (opts\<lparr>start_timestamp_ns := t\<rparr>) = GetOptions env opts"
    using assms by (simp add: GetOptions_def)
  have ctor: "ProfilerSession_ctor mobile env (opts\<lparr>start_timestamp_ns := t\<rparr>) w =
           ProfilerSession_ctor mobile env opts w"
    by (simp add: ProfilerSession_ctor_def same)
  have no_sleep: "Sleep d \<notin> set (new_events w (snd (ProfilerSession_ctor False env opts w)))"
    if "start_timestamp_ns (DefaultOptions env) = 0" for d
  proof (cases "g_session_active w")
    case True
    then show ?thesis
      by (simp add: ProfilerSession_ctor_def Acquire_def new_events_def emit_def)
  next
    case False
    from that have "\<not> timestamp_positive (start_timestamp_signed env)
        (start_timestamp_ns (GetOptions env opts))"
      by (simp add: merged timestamp_positive_unset)
    with ctor_acquired_explicit [OF False, of env opts] show ?thesis
      by (auto simp: split_beta new_events_def)
  qed
  from merged ctor no_sleep show ?thesis
    by simp
qed

theorem version_zero_discards_timestamp_witness:
  "version old_format_options = 0 \<and>
   start_timestamp_ns old_format_options = 5000 \<and>
   clock_ns idle_world = 1000 \<and>
   start_timestamp_ns (DefaultOptions example_env) = 0 \<and>
   start_timestamp_ns (GetOptions example_env old_format_options) = 0 \<and>
   Sleep 4000 \<notin> set (new_events idle_world (snd example_started))"
proof -
  have v: "version old_format_options = 0"
    by (simp add: old_format_options_def)
  have d: "start_timestamp_ns (DefaultOptions example_env) = 0"
    by (simp add: example_env_def)
  from version_zero_discards_timestamp [OF v, where env = example_env and w = idle_world]
    d
  have "start_timestamp_ns (GetOptions example_env old_format_options) =
      start_timestamp_ns (DefaultOptions example_env) \<and>
      Sleep 4000 \<notin> set (new_events idle_world (snd example_started))"
    by (simp add: example_started_def)
  with v d show ?thesis
    by (simp add: example_env_def old_format_options_def idle_world_def)
qed

section \<open>Construction\<close>

text \<open>
  C1. On a supported platform: if acquiring the profiler lock fails, the session's status
  is the lock's failure and construction stops there: the plugin list is empty, no start
  time is recorded, and the only thing that happened is the failed acquisition (no
  factory call, no clock read, no \<open>Start\<close>). If acquisition succeeds, the status is
  \<open>OK\<close> whatever the plugins' \<open>Start\<close> calls returned, every plugin of the factory is
  in the session's list, in factory order, and \<open>Start\<close> was called on each of them, in
  that order, at the end of construction.
\<close>

theorem constructor_lock_and_start_failures:
  "(\<forall>failure. fst (Acquire w) = Inl failure \<longrightarrow>
      ProfilerSession_ctor False env options w =
        (\<lparr>m_status = failure, m_options = GetOptions env options,
          m_profiler_lock = \<lparr>m_active = False\<rparr>, m_profilers = [],
          m_start_time_ns = None\<rparr>, snd (Acquire w)) \<and>
      new_events w (snd (ProfilerSession_ctor False env options w)) = [LockAcquire False]) \<and>
   (\<forall>lock. fst (Acquire w) = Inr lock \<longrightarrow>
      (case ProfilerSession_ctor False env options w of (s, w') \<Rightarrow>
         Status s = OK \<and>
         m_profilers s = map (\<lambda>p. snd (plugin_Start env p))
                           (CreateProfilers env (GetOptions env options)) \<and>
         length (m_profilers s) = length (CreateProfilers env (GetOptions env options)) \<and>
         (\<exists>before. new_events w w' = before
            @ map PluginStart [0..<length (CreateProfilers env (GetOptions env options))])))"
proof (cases "g_session_active w")
  case True
  then show ?thesis
    by (simp add: ProfilerSession_ctor_def Acquire_def new_events_def emit_def)
next
  case False
  then have no_failure: "fst (Acquire w) \<noteq> Inl failure" for failure
    by (simp add: Acquire_def)
  obtain s w' where sw: "ProfilerSession_ctor False env options w = (s, w')"
    by (cases "ProfilerSession_ctor False env options w")
  from ctor_acquired_explicit [OF False, of env options] sw
  have st: "m_status s = OK"
    and ps: "m_profilers s = map (\<lambda>p. snd (plugin_Start env p))
                           (CreateProfilers env (GetOptions env options))"
    and tr: "\<exists>mid. trace w' = trace w @ mid
        @ map PluginStart [0..<length (CreateProfilers env (GetOptions env options))]"
    by simp_all
  from tr obtain mid where "trace w' = trace w @ mid
        @ map PluginStart [0..<length (CreateProfilers env (GetOptions env options))]" ..
  then have "new_events w w' = mid
        @ map PluginStart [0..<length (CreateProfilers env (GetOptions env options))]"
    by (rule new_events_append)
  with st ps sw no_failure show ?thesis
    by (simp add: Status_def)
qed


theorem constructor_lock_and_start_failures_witness:
  "fst (Acquire busy_world) = Inl (Error AlreadyActive ''Another profiling session is active.'') \<and>
   ProfilerSession_ctor False example_env new_format_options busy_world =
     (\<lparr>m_status = Error AlreadyActive ''Another profiling session is active.'',
       m_options = new_format_options,
       m_profiler_lock = \<lparr>m_active = False\<rparr>, m_profilers = [],
       m_start_time_ns = None\<rparr>, snd (Acquire busy_world)) \<and>
   new_events busy_world (snd (ProfilerSession_ctor False example_env new_format_options busy_world))
     = [LockAcquire False] \<and>
   fst (Acquire idle_world) = Inr \<lparr>m_active = True\<rparr> \<and>
   fst (plugin_Start example_env (''device'', True)) \<noteq> OK \<and>
   Status (fst example_started) = OK \<and>
   m_profilers (fst example_started) = [(''host'', False), (''device'', True)]"
proof -
  have busy: "fst (Acquire busy_world)
      = Inl (Error AlreadyActive ''Another profiling session is active.'')"
    by (simp add: Acquire_def busy_world_def)
  have idle: "fst (Acquire idle_world) = Inr \<lparr>m_active = True\<rparr>"
    by (simp add: Acquire_def idle_world_def)
  have merged: "GetOptions example_env new_format_options = new_format_options"
    by (simp add: GetOptions_def new_format_options_def)
  from constructor_lock_and_start_failures
    [where w = busy_world and env = example_env and options = new_format_options,
      THEN conjunct1, rule_format, OF busy]
  have refused: "ProfilerSession_ctor False example_env new_format_options busy_world =
     (\<lparr>m_status = Error AlreadyActive ''Another profiling session is active.'',
       m_options = new_format_options,
       m_profiler_lock = \<lparr>m_active = False\<rparr>, m_profilers = [],
       m_start_time_ns = None\<rparr>, snd (Acquire busy_world)) \<and>
     new_events busy_world
       (snd (ProfilerSession_ctor False example_env new_format_options busy_world))
       = [LockAcquire False]"
    unfolding merged .
  from idle constructor_lock_and_start_failures
    [where w = idle_world and env = example_env and options = old_format_options]
  have started: "Status (fst example_started) = OK \<and>
      m_profilers (fst example_started) =
        map (\<lambda>p. snd (plugin_Start example_env p))
          (CreateProfilers example_env (GetOptions example_env old_format_options))"
    by (simp add: example_started_def split_beta)
  from busy idle refused started show ?thesis
    by (simp add: example_env_def new_events_def Acquire_def busy_world_def emit_def)
qed

text \<open>
  C7. A positive timestamp in the future does not always make the constructor block.
  The delay is the 64-bit signed difference \<open>sleep_duration_ns\<close> of the timestamp and the
  clock, and the constructor sleeps only when that is not negative. With the field
  declared unsigned, the timestamp \<open>2 ^ 63 + 1000\<close> at clock 1000 is positive and lies in
  the future, the difference wraps to a negative number, and the constructor logs that it
  is late and starts at once: no sleep, and the recorded start time is 1000.
\<close>

theorem scheduled_start_counterexample:
  "\<not> g_session_active idle_world \<and>
   start_timestamp_ns (GetOptions example_env_unsigned far_future_options)
     = 9223372036854776808 \<and>
   timestamp_positive (start_timestamp_signed example_env_unsigned) 9223372036854776808 \<and>
   uint (clock_ns idle_world) < uint (9223372036854776808 :: 64 word) \<and>
   ProfilerSession_ctor False example_env_unsigned far_future_options idle_world =
     (\<lparr>m_status = OK, m_options = far_future_options,
       m_profiler_lock = \<lparr>m_active = True\<rparr>,
       m_profilers = [(''host'', False), (''device'', True)],
       m_start_time_ns = Some 1000\<rparr>,
      \<lparr>g_session_active = True, clock_ns = 1000,
        trace = [LockAcquire True, ClockRead, ClockRead, FactoryCreate,
                 PluginStart 0, PluginStart 1],
        logs = [SessionInitializing, LateBy 9223372036854775808, SessionStarted,
                StartError (Error Internal ''start failed'')]\<rparr>)"
  by (simp add: ProfilerSession_ctor_def Acquire_def GetOptions_def
      far_future_options_def example_env_unsigned_def example_env_def idle_world_def
      sleep_until_start_def timestamp_positive_def
      GetCurrentTimeNanos_def SleepForNanos_def emit_def LOG_def Let_def)

text \<open>
  C7, as the code has it. A successful construction on a supported platform, with \<open>ts\<close>
  the merged \<open>start_timestamp_ns\<close>, \<open>now\<close> the clock when construction begins and
  \<open>sleep_duration_ns\<close> the 64-bit signed difference \<open>ts - now\<close>. If \<open>ts > 0\<close> and
  \<open>sleep_duration_ns\<close> is not negative, the constructor reads the clock and sleeps for
  \<open>sleep_duration_ns\<close>, after which the clock shows \<open>ts\<close>. If \<open>ts > 0\<close> and
  \<open>sleep_duration_ns\<close> is negative, it reads the clock, does not sleep and logs by how
  much it is late. If \<open>ts\<close> is not positive (zero, or negative in a field declared
  signed) it neither reads the clock for the delay nor sleeps. In every case the start
  time is read from the clock after that, and only then the factory is called and the
  plugins are started, in order. Whenever the true time remaining (the timestamp, read as
  declared, minus the clock) fits in 64 signed bits, \<open>sleep_duration_ns\<close> is that time:
  so a timestamp less than \<open>2 ^ 63\<close> nanoseconds ahead blocks until that time, and a
  timestamp up to \<open>2 ^ 63\<close> nanoseconds behind does not block.
\<close>

theorem scheduled_start_by_difference:
  assumes "\<not> g_session_active w"
  shows "case ProfilerSession_ctor False env options w of (s, w') \<Rightarrow>
     (let ts = start_timestamp_ns (GetOptions env options);
          now = clock_ns w;
          sleep_duration_ns = ts - now;
          positive = timestamp_positive (start_timestamp_signed env) ts;
          remaining = (if start_timestamp_signed env then sint ts else uint ts) - sint now;
          starts = map PluginStart [0..<length (CreateProfilers env (GetOptions env options))];
          start_errors = map StartError (filter (\<lambda>r. r \<noteq> OK)
               (map (\<lambda>p. fst (plugin_Start env p))
                  (CreateProfilers env (GetOptions env options))))
      in m_status s = OK \<and>
         new_events w w' =
           [LockAcquire True]
           @ (if positive
              then (if sint sleep_duration_ns < 0 then [ClockRead]
                    else [ClockRead, Sleep sleep_duration_ns])
              else [])
           @ [ClockRead, FactoryCreate] @ starts \<and>
         clock_ns w' = (if positive \<and> 0 \<le> sint sleep_duration_ns then ts else now) \<and>
         m_start_time_ns s = Some (clock_ns w') \<and>
         logs w' = logs w @ [SessionInitializing]
           @ (if positive
              then (if sint sleep_duration_ns < 0 then [LateBy (now - ts)]
                    else [DelayingBy sleep_duration_ns])
              else [])
           @ [SessionStarted] @ start_errors \<and>
         positive = (0 < (if start_timestamp_signed env then sint ts else uint ts)) \<and>
         (- (2 ^ 63) \<le> remaining \<and> remaining < 2 ^ 63 \<longrightarrow>
            sint sleep_duration_ns = remaining))"
proof -
  let ?ts = "start_timestamp_ns (GetOptions env options)"
  let ?now = "clock_ns w"
  let ?remaining = "(if start_timestamp_signed env then sint ?ts else uint ?ts) - sint ?now"
  obtain s w' where sw: "ProfilerSession_ctor False env options w = (s, w')"
    by (cases "ProfilerSession_ctor False env options w")
  note explicit = ctor_acquired_explicit [OF assms, of env options, unfolded sw prod.case]
  have events: "new_events w w' =
           [LockAcquire True]
           @ (if timestamp_positive (start_timestamp_signed env) ?ts
              then (if sint (?ts - ?now) < 0 then [ClockRead]
                    else [ClockRead, Sleep (?ts - ?now)])
              else [])
           @ [ClockRead, FactoryCreate]
           @ map PluginStart [0..<length (CreateProfilers env (GetOptions env options))]"
    using explicit by (simp add: new_events_def)
  have clock: "clock_ns w' =
      (if timestamp_positive (start_timestamp_signed env) ?ts \<and> 0 \<le> sint (?ts - ?now)
       then ?ts else ?now)"
    using explicit by (simp add: not_less)
  have rest: "m_status s = OK" "m_start_time_ns s = Some (clock_ns w')"
    using explicit by simp_all
  have log: "logs w' = logs w @ [SessionInitializing]
           @ (if timestamp_positive (start_timestamp_signed env) ?ts
              then (if sint (?ts - ?now) < 0 then [LateBy (?now - ?ts)]
                    else [DelayingBy (?ts - ?now)])
              else [])
           @ [SessionStarted]
           @ map StartError (filter (\<lambda>r. r \<noteq> OK)
               (map (\<lambda>p. fst (plugin_Start env p))
                  (CreateProfilers env (GetOptions env options))))"
    using explicit by simp
  have pos: "timestamp_positive (start_timestamp_signed env) ?ts =
      (0 < (if start_timestamp_signed env then sint ?ts else uint ?ts))"
    by (simp add: timestamp_positive_def)
  have range: "sint (?ts - ?now) = ?remaining"
    if "- (2 ^ 63) \<le> ?remaining" "?remaining < 2 ^ 63"
    using that by (rule sint_diff_in_range)
  from events clock rest log pos range show ?thesis
    unfolding sw prod.case Let_def by blast
qed

theorem scheduled_start_by_difference_witness:
  "\<not> g_session_active idle_world \<and>
   - (2 ^ 63) \<le> sint (5000 :: 64 word) - sint (1000 :: 64 word) \<and>
   sint (5000 :: 64 word) - sint (1000 :: 64 word) < 2 ^ 63 \<and>
   sint (5000 - 1000 :: 64 word) = 4000 \<and>
   new_events idle_world (snd (ProfilerSession_ctor False example_env new_format_options idle_world))
     = [LockAcquire True, ClockRead, Sleep 4000, ClockRead, FactoryCreate,
        PluginStart 0, PluginStart 1] \<and>
   m_start_time_ns (fst (ProfilerSession_ctor False example_env new_format_options idle_world))
     = Some 5000 \<and>
   new_events idle_world (snd (ProfilerSession_ctor False example_env late_options idle_world))
     = [LockAcquire True, ClockRead, ClockRead, FactoryCreate, PluginStart 0, PluginStart 1] \<and>
   m_start_time_ns (fst (ProfilerSession_ctor False example_env late_options idle_world))
     = Some 1000 \<and>
   new_events idle_world (snd (ProfilerSession_ctor False example_env old_format_options idle_world))
     = [LockAcquire True, ClockRead, FactoryCreate, PluginStart 0, PluginStart 1]"
proof -
  have idle: "\<not> g_session_active idle_world"
    by (simp add: idle_world_def)
  have opts: "GetOptions example_env new_format_options = new_format_options"
    "GetOptions example_env late_options = late_options"
    "start_timestamp_ns (GetOptions example_env old_format_options) = 0"
    "start_timestamp_ns new_format_options = 5000"
    "start_timestamp_ns late_options = 400"
    "clock_ns idle_world = 1000"
    "start_timestamp_signed example_env"
    "CreateProfilers example_env x = [(''host'', False), (''device'', True)]" for x
    by (simp_all add: GetOptions_def new_format_options_def late_options_def
        old_format_options_def example_env_def idle_world_def)
  from scheduled_start_by_difference [OF idle, of example_env new_format_options]
  have future: "new_events idle_world
       (snd (ProfilerSession_ctor False example_env new_format_options idle_world))
     = [LockAcquire True, ClockRead, Sleep 4000, ClockRead, FactoryCreate,
        PluginStart 0, PluginStart 1] \<and>
     m_start_time_ns (fst (ProfilerSession_ctor False example_env new_format_options idle_world))
     = Some 5000 \<and>
     sint (5000 - 1000 :: 64 word) = 4000"
    by (simp add: split_beta Let_def opts timestamp_positive_def)
  from scheduled_start_by_difference [OF idle, of example_env late_options]
  have past: "new_events idle_world
       (snd (ProfilerSession_ctor False example_env late_options idle_world))
     = [LockAcquire True, ClockRead, ClockRead, FactoryCreate, PluginStart 0, PluginStart 1] \<and>
     m_start_time_ns (fst (ProfilerSession_ctor False example_env late_options idle_world))
     = Some 1000"
    by (simp add: split_beta Let_def opts timestamp_positive_def)
  from scheduled_start_by_difference [OF idle, of example_env old_format_options]
  have unset: "new_events idle_world
       (snd (ProfilerSession_ctor False example_env old_format_options idle_world))
     = [LockAcquire True, ClockRead, FactoryCreate, PluginStart 0, PluginStart 1]"
    by (simp add: split_beta Let_def opts timestamp_positive_def)
  have range: "- (2 ^ 63) \<le> sint (5000 :: 64 word) - sint (1000 :: 64 word)"
    "sint (5000 :: 64 word) - sint (1000 :: 64 word) < 2 ^ 63"
    by simp_all
  from idle range future past unset show ?thesis
    by (simp only: simp_thms)
qed

text \<open>
  C9. \<open>Create\<close> returns a session on every platform and for every options value, also
  when the lock cannot be acquired or the platform is not supported. What went wrong is
  the status of the returned session.
\<close>

theorem Create_returns_handle:
  "\<exists>s. fst (Create mobile env options w) = Some s \<and>
        Status s =
          (if mobile
           then Error Unimplemented ''Profiler is unimplemented for mobile platforms.''
           else (case fst (Acquire w) of Inl failure \<Rightarrow> failure | Inr lock \<Rightarrow> OK))"
proof (cases "g_session_active w")
  case True
  then show ?thesis
    by (simp add: Create_def ProfilerSession_ctor_def Status_def Acquire_def split_beta)
next
  case False
  with ctor_supported_acquired [OF False, of env options] show ?thesis
    by (simp add: Create_def Status_def Acquire_def split_beta)
      (simp add: ProfilerSession_ctor_def)
qed

section \<open>Collecting data\<close>

text \<open>
  C3. On a supported platform, for a session whose status is \<open>OK\<close> and any list of
  plugins: \<open>CollectData\<close> calls \<open>Stop\<close> on every plugin in list order, then
  \<open>CollectData\<close> on every plugin in list order, each writing into the container the
  previous one left, then releases the profiler lock, then runs the post-processing step
  once on the container with the recorded start time. The statuses the plugins return are
  dropped and the call returns \<open>OK\<close>. Afterwards the session's token is inactive, and
  if it was active before, the process lock is free.
\<close>

theorem CollectData_sequence:
  assumes "m_status s = OK"
  shows "case CollectData False env s space w of (st, s', space', w') \<Rightarrow>
     st = OK \<and>
     new_events w w' =
       map PluginStop [0..<length (m_profilers s)]
       @ map PluginCollectData [0..<length (m_profilers s)]
       @ [LockReleaseIfActive (m_active (m_profiler_lock s)),
          PostProcess (m_start_time_ns s)] \<and>
     space' = PostProcessSingleHostXSpace env
        (foldl (\<lambda>y p. snd (snd (plugin_CollectData env p y))) space
           (map (\<lambda>p. snd (plugin_Stop env p)) (m_profilers s)))
        (m_start_time_ns s) \<and>
     \<not> m_active (m_profiler_lock s') \<and>
     (m_active (m_profiler_lock s) \<longrightarrow> \<not> g_session_active w')"
  using CollectData_supported_ok [OF assms, of env space w]
  by (auto simp: new_events_def split: prod.splits)

theorem CollectData_sequence_witness:
  "m_status (fst example_started) = OK \<and>
   fst example_collected = OK \<and>
   new_events (snd example_started) (snd (snd (snd example_collected))) =
     [PluginStop 0, PluginStop 1, PluginCollectData 0, PluginCollectData 1,
      LockReleaseIfActive True, PostProcess (Some 1000)] \<and>
   fst (snd (snd example_collected)) = [''processed'', ''host''] \<and>
   \<not> g_session_active (snd (snd (snd example_collected)))"
proof -
  have ok: "m_status (fst example_started) = OK"
    by (simp add: example_started_eval)
  show ?thesis
    using ok CollectData_sequence [OF ok, where env = example_env and space = "[]"
        and w = "snd example_started"]
    by (simp add: example_collected_def [symmetric] split_beta)
      (simp add: example_started_eval example_env_def)
qed



text \<open>
  C2. A session whose status is not \<open>OK\<close>: \<open>CollectDataInternal\<close> returns the stored
  status on every platform and does nothing else, and so does \<open>CollectData\<close> on a
  supported platform: the session, the container and the world are unchanged (no
  \<open>Stop\<close>, no \<open>CollectData\<close> of a plugin, no release, no post-processing). In the
  mobile build \<open>CollectData\<close> does not call \<open>CollectDataInternal\<close> and returns \<open>OK\<close>
  instead of the stored status.
\<close>

theorem CollectData_on_failed_session:
  assumes "m_status s \<noteq> OK"
  shows "CollectDataInternal mobile env s space w = (m_status s, s, space, w) \<and>
         CollectData False env s space w = (m_status s, s, space, w) \<and>
         CollectData True env s space w = (OK, s, space, w)"
  using assms by (simp add: CollectData_def CollectDataInternal_def)

theorem CollectData_on_failed_session_witness:
  "m_status (fst (ProfilerSession_ctor True example_env new_format_options idle_world)) \<noteq> OK \<and>
   fst (CollectData True example_env
          (fst (ProfilerSession_ctor True example_env new_format_options idle_world))
          [] idle_world) = OK \<and>
   m_status (fst (ProfilerSession_ctor False example_env new_format_options busy_world)) \<noteq> OK \<and>
   fst (CollectData False example_env
          (fst (ProfilerSession_ctor False example_env new_format_options busy_world))
          [] busy_world) = Error AlreadyActive ''Another profiling session is active.''"
proof -
  have mob: "m_status (fst (ProfilerSession_ctor True example_env new_format_options idle_world))
      \<noteq> OK"
    by (simp add: ProfilerSession_ctor_def)
  have busy: "m_status (fst (ProfilerSession_ctor False example_env new_format_options busy_world))
      = Error AlreadyActive ''Another profiling session is active.''"
    by (simp add: ProfilerSession_ctor_def Acquire_def busy_world_def)
  then have busy': "m_status
      (fst (ProfilerSession_ctor False example_env new_format_options busy_world)) \<noteq> OK"
    by simp
  from mob busy busy'
    CollectData_on_failed_session [OF mob, where env = example_env and space = "[]"
      and w = idle_world]
    CollectData_on_failed_session [OF busy', where env = example_env and space = "[]"
      and w = busy_world]
  show ?thesis by simp
qed

text \<open>
  C8. In the mobile build the constructor sets the status \<open>Unimplemented\<close> and touches
  nothing else: the world is unchanged, so no lock acquisition was attempted. \<open>Status\<close>
  returns that error. \<open>CollectData\<close> returns \<open>OK\<close> for that session: the status check
  sits in \<open>CollectDataInternal\<close>, ahead of the platform guard, but \<open>CollectData\<close> calls
  \<open>CollectDataInternal\<close> only inside its own platform guard.
\<close>

theorem mobile_status_not_returned_by_CollectData:
  "ProfilerSession_ctor True env options w =
     (\<lparr>m_status = Error Unimplemented ''Profiler is unimplemented for mobile platforms.'',
       m_options = EmptyOptions env,
       m_profiler_lock = \<lparr>m_active = False\<rparr>, m_profilers = [],
       m_start_time_ns = None\<rparr>, w) \<and>
   Status (fst (ProfilerSession_ctor True env options w)) =
     Error Unimplemented ''Profiler is unimplemented for mobile platforms.'' \<and>
   fst (CollectData True env (fst (ProfilerSession_ctor True env options w)) space w') = OK"
  by (simp add: ProfilerSession_ctor_def Status_def CollectData_def)

text \<open>
  C4. A second \<open>CollectData\<close> on a session that has collected once is not a no-op. The
  first call leaves the status \<open>OK\<close> and the plugins in the list, and nothing in
  \<open>CollectData\<close> looks at the lock: the second call stops every plugin again, collects
  from every plugin again and post-processes again. The concrete session shows it.
\<close>

theorem second_CollectData_counterexample:
  "fst example_collected = OK \<and>
   \<not> m_active (m_profiler_lock (fst (snd example_collected))) \<and>
   new_events (snd (snd (snd example_collected))) (snd (snd (snd example_collected_again))) =
     [PluginStop 0, PluginStop 1, PluginCollectData 0, PluginCollectData 1,
      LockReleaseIfActive False, PostProcess (Some 1000)]"
  by (simp add: example_collected_eval example_collected_again_eval new_events_def)

text \<open>
  C4, as the code has it. After a first \<open>CollectData\<close> on a session with status \<open>OK\<close>,
  a further call, in whatever state the process is by then, returns \<open>OK\<close> and repeats
  \<open>Stop\<close> and \<open>CollectData\<close> on every plugin in order and the post-processing step;
  only its release of the lock does nothing: the token is inactive and the process
  lock is left as it is.
\<close>

theorem second_CollectData_repeats:
  assumes "m_status s = OK"
  shows "case CollectData False env s space w of (st1, s1, space1, w1) \<Rightarrow>
     (case CollectData False env s1 space2 w2 of (st2, s2, space3, w3) \<Rightarrow>
        st2 = OK \<and>
        new_events w2 w3 =
          map PluginStop [0..<length (m_profilers s)]
          @ map PluginCollectData [0..<length (m_profilers s)]
          @ [LockReleaseIfActive False, PostProcess (m_start_time_ns s)] \<and>
        g_session_active w3 = g_session_active w2)"
proof -
  obtain st1 s1 space1 w1 where first: "CollectData False env s space w = (st1, s1, space1, w1)"
    by (cases "CollectData False env s space w")
  from CollectData_supported_ok [OF assms, of env space w] first
  have s1: "m_status s1 = OK" "\<not> m_active (m_profiler_lock s1)"
    "length (m_profilers s1) = length (m_profilers s)"
    "m_start_time_ns s1 = m_start_time_ns s"
    by simp_all
  from CollectData_supported_ok [OF s1(1), of env space2 w2] s1 first show ?thesis
    by (simp add: split_beta new_events_def)
qed

theorem second_CollectData_repeats_witness:
  "m_status (fst example_started) = OK \<and>
   fst example_collected_again = OK \<and>
   new_events (snd (snd (snd example_collected))) (snd (snd (snd example_collected_again))) =
     [PluginStop 0, PluginStop 1, PluginCollectData 0, PluginCollectData 1,
      LockReleaseIfActive False, PostProcess (Some 1000)]"
proof -
  have ok: "m_status (fst example_started) = OK"
    by (simp add: example_started_eval)
  from second_CollectData_repeats [OF ok, where env = example_env and space = "[]"
      and w = "snd example_started" and ?space2.0 = "fst (snd (snd example_collected))"
      and ?w2.0 = "snd (snd (snd example_collected))"]
  have "fst example_collected_again = OK \<and>
     new_events (snd (snd (snd example_collected))) (snd (snd (snd example_collected_again))) =
       map PluginStop [0..<length (m_profilers (fst example_started))]
       @ map PluginCollectData [0..<length (m_profilers (fst example_started))]
       @ [LockReleaseIfActive False, PostProcess (m_start_time_ns (fst example_started))]"
    by (simp add: example_collected_def [symmetric] example_collected_again_def [symmetric]
        split_beta)
  with ok show ?thesis
    by (simp add: example_started_eval)
qed


section \<open>Destruction\<close>

text \<open>
  C5. A session with status \<open>OK\<close> that holds the lock, on a supported platform:
  \<open>CollectData\<close> followed by the destructor. \<open>CollectData\<close> frees the process lock. The
  destructor then calls \<open>Stop\<close> on every plugin in order and \<open>ReleaseIfActive\<close> on a
  token that is no longer active, which changes nothing. Over the two calls the lock is
  freed exactly once. The destructor of that session leaves the process lock alone in any
  state of the process, also when another session has acquired it in between.
\<close>

theorem collect_then_destroy_releases_once:
  assumes "m_status s = OK" and "m_active (m_profiler_lock s)"
  shows "case CollectData False env s space w of (st, s', space', w') \<Rightarrow>
     st = OK \<and> \<not> g_session_active w' \<and>
     new_events w' (ProfilerSession_dtor False env s' w') =
       map PluginStop [0..<length (m_profilers s)] @ [LockReleaseIfActive False] \<and>
     length (filter (\<lambda>e. e = LockReleaseIfActive True)
        (new_events w (ProfilerSession_dtor False env s' w'))) = 1 \<and>
     g_session_active (ProfilerSession_dtor False env s' v) = g_session_active v"
proof -
  obtain st s' space' w' where first: "CollectData False env s space w = (st, s', space', w')"
    by (cases "CollectData False env s space w")
  from CollectData_supported_ok [OF assms(1), of env space w] first assms(2)
  have facts: "st = OK" "\<not> m_active (m_profiler_lock s')"
    "length (m_profilers s') = length (m_profilers s)"
    "\<not> g_session_active w'"
    "trace w' = trace w @ map PluginStop [0..<length (m_profilers s)]
               @ map PluginCollectData [0..<length (m_profilers s)]
               @ [LockReleaseIfActive True, PostProcess (m_start_time_ns s)]"
    by simp_all
  have no_release: "filter (\<lambda>e. e = LockReleaseIfActive True) (map PluginStop ns) = []"
    "filter (\<lambda>e. e = LockReleaseIfActive True) (map PluginCollectData ns) = []" for ns
    by (induction ns) simp_all
  from facts first show ?thesis
    by (simp add: dtor_supported_world new_events_def no_release)
qed

theorem collect_then_destroy_releases_once_witness:
  "m_status (fst example_started) = OK \<and> m_active (m_profiler_lock (fst example_started)) \<and>
   new_events (snd (snd (snd example_collected)))
     (ProfilerSession_dtor False example_env (fst (snd example_collected))
        (snd (snd (snd example_collected)))) =
     [PluginStop 0, PluginStop 1, LockReleaseIfActive False] \<and>
   length (filter (\<lambda>e. e = LockReleaseIfActive True)
     (new_events (snd example_started)
        (ProfilerSession_dtor False example_env (fst (snd example_collected))
           (snd (snd (snd example_collected)))))) = 1"
proof -
  have ok: "m_status (fst example_started) = OK"
    and held: "m_active (m_profiler_lock (fst example_started))"
    by (simp_all add: example_started_eval)
  from collect_then_destroy_releases_once [OF ok held, where env = example_env
      and space = "[]" and w = "snd example_started"]
  have "new_events (snd (snd (snd example_collected)))
     (ProfilerSession_dtor False example_env (fst (snd example_collected))
        (snd (snd (snd example_collected)))) =
     map PluginStop [0..<length (m_profilers (fst example_started))]
       @ [LockReleaseIfActive False] \<and>
   length (filter (\<lambda>e. e = LockReleaseIfActive True)
     (new_events (snd example_started)
        (ProfilerSession_dtor False example_env (fst (snd example_collected))
           (snd (snd (snd example_collected)))))) = 1"
    by (simp add: example_collected_def [symmetric] split_beta)
  with ok held show ?thesis
    by (simp add: example_started_eval)
qed


end
